theory Spec2Isabelle
  imports Main "HOL-Library.Sublist"
begin

section \<open>The SysV/LSB service backend\<close>

text \<open>
  A shallow embedding of the System-V backend of the Go service library. The repository
  holds two variants of the backend. The tool-delegating variant (runlevels and priorities
  as constants, \<open>manageSymlinks\<close>) is embedded under the source's names; the older
  variant in \<open>service_sysv_linux.go\<close>, which creates the links itself and removes none,
  carries the suffix \<open>_legacy\<close> where the two differ. \<open>configPath\<close>,
  \<open>determineDistroFlavour\<close>, \<open>Run\<close>, \<open>Start\<close>, \<open>Stop\<close> and \<open>Restart\<close>
  are the same text in both.
\<close>

subsection \<open>The service definition\<close>

text \<open>
  Modelled from the spec: the struct \<open>Config\<close> is declared outside the two source files.
  The fields are the ones the backend reads. \<open>userService\<close> stands for the value of
  \<open>s.Option.bool(optionUserService, optionUserServiceDefault)\<close>, the "is user service"
  flag of the option set.
\<close>

record Config =
  Name :: string
  DisplayName :: string
  Description :: string
  UserName :: string
  Arguments :: "string list"
  WorkingDirectory :: string
  ChRoot :: string
  userService :: bool

text \<open>
  The anonymous struct \<open>to\<close> that \<open>Install\<close> hands to the template: the embedded
  \<open>*Config\<close> and the fields computed at installation.
\<close>

record sysvData = Config +
  Path :: string
  Flavour :: string
  DefaultStart :: string
  DefaultStop :: string
  StartLevels :: "string list"
  StopLevels :: "string list"

text \<open>
  The template function map \<open>tf\<close> is declared outside the two source files; the
  script is rendered relative to it. \<open>cmd\<close> is the shell-quoting function, \<open>join\<close>
  joins a list of strings with a separator.
\<close>

record tfuncs =
  cmd :: "string \<Rightarrow> string"
  join :: "string list \<Rightarrow> string \<Rightarrow> string"

subsection \<open>The control-script template\<close>

definition BSL :: string where
  "BSL = [CHR 0x5C]"

definition TAB :: string where
  "TAB = [CHR 0x09]"

text \<open>
  \<open>sysvScript\<close>, executed by \<open>text/template\<close>: literal text is copied, \<open>{{.F}}\<close>
  prints the field as it is, \<open>{{.F|cmd}}\<close> prints \<open>cmd\<close> of it, \<open>{{if .F}}\<close> tests a
  string for being non-empty, \<open>{{range .Arguments}}\<close> repeats its body per argument, and a
  template comment prints nothing. \<open>BSL\<close> is the backslash and \<open>TAB\<close> the tabulator of
  the script text.
\<close>

definition sysvScript :: "tfuncs \<Rightarrow> sysvData \<Rightarrow> string" where
  \<open>sysvScript tf to =
  ''#!/bin/bash\<newline>'' @
       (if Flavour to = ''redhat'' then
          ''#\<newline>'' @
          ''# '' @ DisplayName to @ ''\<newline>'' @
          ''#\<newline>'' @
          ''# chkconfig:   '' @ join tf (StartLevels to) '''' @ '' '' @ DefaultStart to @ '' '' @
          DefaultStop to @ ''\<newline>'' @
          ''# description: '' @ Description to @ ''\<newline>'' @
          ''\<newline>'' @
          ''# Source function library.\<newline>'' @
          ''. /etc/rc.d/init.d/functions\<newline>''
        else
          ''### BEGIN INIT INFO\<newline>'' @
          ''# Provides:          '' @ Name to @ ''\<newline>'' @
          ''# Required-Start:    $local_fs $remote_fs $network $syslog\<newline>'' @
          ''# Required-Stop:     $local_fs $remote_fs $network $syslog\<newline>'' @
          ''# Default-Start:     '' @ join tf (StartLevels to) '' '' @ ''\<newline>'' @
          ''# Default-Stop:      '' @ join tf (StopLevels to) '' '' @ ''\<newline>'' @
          ''# Short-Description: '' @ DisplayName to @ ''\<newline>'' @
          ''# Description:       '' @ Description to @ ''\<newline>'' @
          ''### END INIT INFO\<newline>'' @
          ''\<newline>'' @
          ''# Source function library.\<newline>'' @
          ''. /lib/lsb/init-functions\<newline>'') @
       ''\<newline>'' @
       ''CMD="'' @ Path to @ ''"\<newline>'' @
       ''NAME="'' @ Name to @ ''"\<newline>'' @
       ''DESC="'' @ Description to @ ''"\<newline>'' @
       ''\<newline>'' @
       ''# The following can be overridden via configuration file\<newline>'' @
       ''PIDFILE="/var/run/${NAME}.pid"\<newline>'' @
       ''LOCKFILE="/var/lock/subsys/${NAME}"\<newline>'' @
       ''\<newline>'' @
       ''# Log output of $CMD\<newline>'' @
       ''STDOUTLOG="/dev/null"\<newline>'' @
       ''STDERRLOG="/dev/null"\<newline>'' @
       ''\<newline>'' @
       ''# Source configuration defaults to override above as appropriate.\<newline>'' @
       ''! test -e /etc/default/${NAME}   || . /etc/default/${NAME}\<newline>'' @
       ''! test -e /etc/sysconfig/${NAME} || . /etc/sysconfig/${NAME}\<newline>'' @
       ''test $(id -u) -eq "0"            || exit 4 # LSB exit: insufficient permissions\<newline>'' @
       ''test -x ${CMD}                   || exit 5 # LSB exit: program not installed\<newline>'' @
       ''test -d $(dirname $LOCKFILE)     || mkdir -p $(dirname $LOCKFILE)\<newline>'' @
       (if Flavour to = ''redhat'' then
          ''\<newline>'' @
          ''get_status() {\<newline>'' @
          ''    status -p "$PIDFILE" "$CMD"\<newline>'' @
          ''}\<newline>'' @
          ''\<newline>'' @
          ''start() {\<newline>'' @
          ''    get_status &>/dev/null && return 0\<newline>'' @
          ''    echo -n $"Starting ${DESC}: "\<newline>'' @
          ''    daemon --pidfile="$PIDFILE" '' @
          (if UserName to \<noteq> [] then ''--user='' @ UserName to else []) @
          '' '' @ BSL @ ''\<newline>'' @
          TAB @ ''   "$CMD '' @ concat (map (\<lambda>a. '' '' @ cmd tf a) (Arguments to)) @
          '' </dev/null >$STDOUTLOG 2>$STDERRLOG & echo '' @ BSL @ ''$! > $PIDFILE"\<newline>'' @
          ''    sleep 0.5 # wait briefly to see if service failed to start\<newline>'' @
          ''    get_status &>/dev/null && success || failure\<newline>'' @
          ''    RETVAL=$?\<newline>'' @
          ''    [ $RETVAL -eq 0 ] &&  touch "$LOCKFILE" || rm -f "$PIDFILE"\<newline>'' @
          ''    echo\<newline>'' @
          ''    return $RETVAL\<newline>'' @
          ''}\<newline>'' @
          ''\<newline>'' @
          ''stop() {\<newline>'' @
          ''    get_status &>/dev/null || return 0\<newline>'' @
          ''    echo -n $"Stopping ${DESC}: "\<newline>'' @
          ''    killproc -p "$PIDFILE" "$CMD" -TERM\<newline>'' @
          ''    RETVAL=$?\<newline>'' @
          ''    [ $RETVAL -eq 0 ] && rm -f "$LOCKFILE" "$PIDFILE" || rm -f "$PIDFILE"\<newline>'' @
          ''    echo\<newline>'' @
          ''    return $RETVAL\<newline>'' @
          ''}''
        else
          ''\<newline>'' @
          ''if type status_of_proc &>/dev/null; then'' @ TAB @ ''# newer LSB versions only\<newline>'' @
          ''    get_status() {\<newline>'' @
          ''        status_of_proc $([ -e $PIDFILE ] && echo -p $PIDFILE) "$CMD" "$NAME"\<newline>'' @
          ''    }\<newline>'' @
          ''else\<newline>'' @
          ''    get_status() {\<newline>'' @
          TAB @ ''pidofproc $([ -e $PIDFILE ] && echo -p $PIDFILE) "$CMD" >/dev/null\<newline>'' @
          TAB @ ''RETVAL=$?\<newline>'' @
          TAB @ ''if [ $RETVAL -eq 0 ]; then\<newline>'' @
          TAB @ ''    log_success_msg "$NAME is running"\<newline>'' @
          TAB @ ''elif [ $RETVAL -eq 4 ]; then\<newline>'' @
          TAB @ ''    log_failure_msg "could not access PID file for $NAME"\<newline>'' @
          TAB @ ''else\<newline>'' @
          TAB @ ''    log_failure_msg "$NAME is not running"\<newline>'' @
          TAB @ ''fi\<newline>'' @
          TAB @ ''return $RETVAL\<newline>'' @
          ''    }\<newline>'' @
          ''fi\<newline>'' @
          (if Flavour to = ''debian'' then
             ''\<newline>'' @
             ''start() {\<newline>'' @
             ''    log_daemon_msg "Starting ${DESC}"\<newline>'' @
             ''    start-stop-daemon --start '' @ BSL @ ''\<newline>'' @
             ''    '' @ (if ChRoot to \<noteq> [] then ''--chroot '' @ cmd tf (ChRoot to) else []) @
             '' '' @ BSL @ ''\<newline>'' @
             ''    '' @
             (if WorkingDirectory to \<noteq> [] then ''--chdir '' @ cmd tf (WorkingDirectory to) else []) @
             '' '' @ BSL @ ''\<newline>'' @
             ''    '' @ (if UserName to \<noteq> [] then ''--chuid '' @ cmd tf (UserName to) else []) @
             '' '' @ BSL @ ''\<newline>'' @
             ''    --pidfile "$PIDFILE" '' @ BSL @ ''\<newline>'' @
             ''    --background '' @ BSL @ ''\<newline>'' @
             ''    --make-pidfile '' @ BSL @ ''\<newline>'' @
             ''    --exec "$CMD" -- '' @ concat (map (\<lambda>a. '' '' @ cmd tf a) (Arguments to)) @
             ''\<newline>'' @
             ''    log_end_msg  $?\<newline>'' @
             ''}\<newline>'' @
             ''\<newline>'' @
             ''stop() {\<newline>'' @
             ''    log_daemon_msg "Stopping ${DESC}"\<newline>'' @
             ''    start-stop-daemon --stop --pidfile "$PIDFILE" --quiet\<newline>'' @
             ''    RETVAL=$?\<newline>'' @
             ''    rm -f "$PIDFILE"\<newline>'' @
             ''    log_end_msg $RETVAL\<newline>'' @
             ''}''
           else
             ''\<newline>'' @
             ''start() {\<newline>'' @
             ''    get_status &>/dev/null && return 0\<newline>'' @
             ''    echo -n $"Starting $DESC: ${NAME}"\<newline>'' @
             ''    '' @
             (if WorkingDirectory to \<noteq> [] then ''cd '' @ cmd tf (WorkingDirectory to) else []) @
             ''\<newline>'' @
             ''    "$CMD" '' @ concat (map (\<lambda>a. '' '' @ cmd tf a) (Arguments to)) @
             '' </dev/null >"$STDOUTLOG" 2>"$STDERRLOG" &\<newline>'' @
             ''    echo $! > "$PIDFILE"\<newline>'' @
             ''    sleep 0.5 # wait briefly to see if service crashed\<newline>'' @
             ''    get_status &>/dev/null\<newline>'' @
             ''    RETVAL=$?\<newline>'' @
             ''    if [ $RETVAL -eq 0 ]; then\<newline>'' @
             TAB @ ''    log_success_msg\<newline>'' @
             TAB @ ''    touch "$LOCKFILE"\<newline>'' @
             ''    else\<newline>'' @
             TAB @ ''    log_failure_msg\<newline>'' @
             TAB @ ''    rm -f "$PIDFILE"\<newline>'' @
             ''    fi\<newline>'' @
             ''    return $RETVAL\<newline>'' @
             ''}\<newline>'' @
             ''\<newline>'' @
             ''stop() {\<newline>'' @
             ''    get_status &>/dev/null || return 0\<newline>'' @
             ''    echo -n $"Stopping ${DESC}: ${NAME}"\<newline>'' @
             ''    killproc -p "$PIDFILE" "$CMD" -TERM\<newline>'' @
             ''    RETVAL=$?\<newline>'' @
             ''    if [ $RETVAL -eq 0 ]; then\<newline>'' @
             TAB @ ''    log_success_msg\<newline>'' @
             TAB @ ''    rm -f "$LOCKFILE"\<newline>'' @
             ''    else\<newline>'' @
             TAB @ ''    log_failure_msg\<newline>'' @
             ''    fi\<newline>'' @
             ''    rm -f "$PIDFILE"\<newline>'' @
             ''    return $RETVAL\<newline>'' @
             ''}'')) @
       ''\<newline>'' @
       ''\<newline>'' @
       ''case "$1" in\<newline>'' @
       ''    start|stop)\<newline>'' @
       TAB @ ''$1\<newline>'' @
       TAB @ '';;\<newline>'' @
       ''    restart|force-reload)\<newline>'' @
       TAB @ ''stop\<newline>'' @
       TAB @ ''start\<newline>'' @
       TAB @ '';;\<newline>'' @
       ''    status)\<newline>'' @
       TAB @ ''get_status\<newline>'' @
       TAB @ '';;\<newline>'' @
       ''    *)\<newline>'' @
       TAB @ ''echo $"Usage: $0 {start|stop|status|restart|force-reload}" >&2\<newline>'' @
       TAB @ ''exit 2 # LSB: invalid or excess arguments\<newline>'' @
       ''esac\<newline>''\<close>

text \<open>
  The older variant's struct \<open>to\<close>: the embedded \<open>*Config\<close>, \<open>Path\<close> and
  \<open>Flavour\<close> only. Its template writes the runlevels and priorities as literal text and
  collects the quoted arguments in the shell variable \<open>DAEMON_ARGS\<close>.
\<close>

record sysvData_legacy = Config +
  Path_legacy :: string
  Flavour_legacy :: string

definition sysvScript_legacy :: "tfuncs \<Rightarrow> sysvData_legacy \<Rightarrow> string" where
  \<open>sysvScript_legacy tf to =
  ''#!/bin/bash\<newline>'' @
       (if Flavour_legacy to = ''redhat'' then
          ''#\<newline>'' @
          ''# '' @ DisplayName to @ ''\<newline>'' @
          ''#\<newline>'' @
          ''# chkconfig:   2345 50 02\<newline>'' @
          ''# description: '' @ Description to @ ''\<newline>'' @
          ''\<newline>'' @
          ''# Source function library.\<newline>'' @
          ''. /etc/rc.d/init.d/functions\<newline>''
        else
          ''### BEGIN INIT INFO\<newline>'' @
          ''# Provides:          '' @ Path_legacy to @ ''\<newline>'' @
          ''# Required-Start:    $local_fs $remote_fs $network $syslog\<newline>'' @
          ''# Required-Stop:     $local_fs $remote_fs $network $syslog\<newline>'' @
          ''# Default-Start:     2 3 4 5\<newline>'' @
          ''# Default-Stop:      0 1 6\<newline>'' @
          ''# Short-Description: '' @ DisplayName to @ ''\<newline>'' @
          ''# Description:       '' @ Description to @ ''\<newline>'' @
          ''### END INIT INFO\<newline>'' @
          ''\<newline>'' @
          ''# Source function library.\<newline>'' @
          ''. /lib/lsb/init-functions'') @
       ''\<newline>'' @
       ''CMD="'' @ Path_legacy to @ ''"\<newline>'' @
       ''NAME="'' @ Name to @ ''"\<newline>'' @
       ''DESC="'' @ Description to @ ''"\<newline>'' @
       ''\<newline>'' @
       ''# The following can be overridden via configuration file\<newline>'' @
       ''PIDFILE="/var/run/${NAME}.pid"\<newline>'' @
       ''LOCKFILE="/var/lock/subsys/${NAME}"\<newline>'' @
       ''\<newline>'' @
       ''# Log output of $CMD\<newline>'' @
       ''STDOUTLOG="/dev/null"\<newline>'' @
       ''STDERRLOG="/dev/null"\<newline>'' @
       ''\<newline>'' @
       ''# Startup options\<newline>'' @
       ''DAEMON_ARGS="'' @ concat (map (\<lambda>a. '' '' @ cmd tf a) (Arguments to)) @
       ''"\<newline>'' @
       ''\<newline>'' @
       ''# Source configuration defaults to override above as appropriate.\<newline>'' @
       ''! test -e /etc/default/${NAME}   || . /etc/default/${NAME}\<newline>'' @
       ''! test -e /etc/sysconfig/${NAME} || . /etc/sysconfig/${NAME}\<newline>'' @
       ''test $(id -u) -eq "0"            || exit 4 # LSB exit: insufficient permissions\<newline>'' @
       ''test -x ${CMD}                   || exit 5 # LSB exit: program not installed\<newline>'' @
       ''test -d $(dirname $LOCKFILE)     || mkdir -p $(dirname $LOCKFILE)\<newline>'' @
       (if Flavour_legacy to = ''redhat'' then
          ''\<newline>'' @
          ''get_status() {\<newline>'' @
          ''    status -p "$PIDFILE" "$CMD"\<newline>'' @
          ''}\<newline>'' @
          ''\<newline>'' @
          ''start() {\<newline>'' @
          ''    get_status &>/dev/null && return 0\<newline>'' @
          ''    echo -n $"Starting ${DESC}: "\<newline>'' @
          ''    daemon --pidfile="$PIDFILE" '' @
          (if UserName to \<noteq> [] then ''--user='' @ UserName to else []) @
          '' '' @ BSL @ ''\<newline>'' @
          TAB @ ''   "$CMD $DAEMON_ARGS </dev/null >$STDOUTLOG 2>$STDERRLOG & echo '' @ BSL @ ''$! > $PIDFILE"\<newline>'' @
          ''    sleep 0.5 # wait briefly to see if service failed to start\<newline>'' @
          ''    get_status &>/dev/null && success || failure\<newline>'' @
          ''    RETVAL=$?\<newline>'' @
          ''    [ $RETVAL -eq 0 ] &&  touch "$LOCKFILE" || rm -f "$PIDFILE"\<newline>'' @
          ''    echo\<newline>'' @
          ''    return $RETVAL\<newline>'' @
          ''}\<newline>'' @
          ''\<newline>'' @
          ''stop() {\<newline>'' @
          ''    get_status &>/dev/null || return 0\<newline>'' @
          ''    echo -n $"Stopping ${DESC}: "\<newline>'' @
          ''    killproc -p "$PIDFILE" "$CMD" -TERM\<newline>'' @
          ''    RETVAL=$?\<newline>'' @
          ''    [ $RETVAL -eq 0 ] && rm -f "$LOCKFILE" "$PIDFILE" || rm -f "$PIDFILE"\<newline>'' @
          ''    echo\<newline>'' @
          ''    return $RETVAL\<newline>'' @
          ''}''
        else
          ''\<newline>'' @
          ''if type status_of_proc &>/dev/null; then'' @ TAB @ ''# newer LSB versions only\<newline>'' @
          ''    get_status() {\<newline>'' @
          ''        status_of_proc $([ -e $PIDFILE ] && echo -p $PIDFILE) "$CMD" "$NAME"\<newline>'' @
          ''    }\<newline>'' @
          ''else\<newline>'' @
          ''    get_status() {\<newline>'' @
          TAB @ ''pidofproc $([ -e $PIDFILE ] && echo -p $PIDFILE) "$CMD" >/dev/null\<newline>'' @
          TAB @ ''RETVAL=$?\<newline>'' @
          TAB @ ''if [ $RETVAL -eq 0 ]; then\<newline>'' @
          TAB @ ''    log_success_msg "$NAME is running"\<newline>'' @
          TAB @ ''elif [ $RETVAL -eq 4 ]; then\<newline>'' @
          TAB @ ''    log_failure_msg "could not access PID file for $NAME"\<newline>'' @
          TAB @ ''else\<newline>'' @
          TAB @ ''    log_failure_msg "$NAME is not running"\<newline>'' @
          TAB @ ''fi\<newline>'' @
          TAB @ ''return $RETVAL\<newline>'' @
          ''    }\<newline>'' @
          ''fi\<newline>'' @
          (if Flavour_legacy to = ''debian'' then
             ''\<newline>'' @
             ''start() {\<newline>'' @
             ''    log_daemon_msg "Starting ${DESC}"\<newline>'' @
             ''    start-stop-daemon --start '' @ BSL @ ''\<newline>'' @
             ''    '' @ (if ChRoot to \<noteq> [] then ''--chroot '' @ cmd tf (ChRoot to) else []) @
             '' '' @ BSL @ ''\<newline>'' @
             ''    '' @
             (if WorkingDirectory to \<noteq> [] then ''--chdir '' @ cmd tf (WorkingDirectory to) else []) @
             '' '' @ BSL @ ''\<newline>'' @
             ''    '' @ (if UserName to \<noteq> [] then ''--chuid '' @ cmd tf (UserName to) else []) @
             '' '' @ BSL @ ''\<newline>'' @
             ''    --pidfile "$PIDFILE" '' @ BSL @ ''\<newline>'' @
             ''    --background '' @ BSL @ ''\<newline>'' @
             ''    --make-pidfile '' @ BSL @ ''\<newline>'' @
             ''    --exec "$CMD" -- "$DAEMON_ARGS"\<newline>'' @
             ''    log_end_msg  $?\<newline>'' @
             ''}\<newline>'' @
             ''\<newline>'' @
             ''stop() {\<newline>'' @
             ''    log_daemon_msg "Stopping ${DESC}"\<newline>'' @
             ''    start-stop-daemon --stop --pidfile "$PIDFILE" --quiet\<newline>'' @
             ''    RETVAL=$?\<newline>'' @
             ''    rm -f "$PIDFILE"\<newline>'' @
             ''    log_end_msg $RETVAL\<newline>'' @
             ''}''
           else
             ''\<newline>'' @
             ''start() {\<newline>'' @
             ''    get_status &>/dev/null && return 0\<newline>'' @
             ''    echo -n $"Starting $DESC: ${NAME}"\<newline>'' @
             ''    '' @
             (if WorkingDirectory to \<noteq> [] then ''cd '' @ cmd tf (WorkingDirectory to) else []) @
             ''\<newline>'' @
             ''    "$CMD" "$DAEMON_ARGS" </dev/null >"$STDOUTLOG" 2>"$STDERRLOG" &\<newline>'' @
             ''    echo $! > "$PIDFILE"\<newline>'' @
             ''    sleep 0.5 # wait briefly to see if service crashed\<newline>'' @
             ''    get_status &>/dev/null\<newline>'' @
             ''    RETVAL=$?\<newline>'' @
             ''    if [ $RETVAL -eq 0 ]; then\<newline>'' @
             TAB @ ''    log_success_msg\<newline>'' @
             TAB @ ''    touch "$LOCKFILE"\<newline>'' @
             ''    else\<newline>'' @
             TAB @ ''    log_failure_msg\<newline>'' @
             TAB @ ''    rm -f "$PIDFILE"\<newline>'' @
             ''    fi\<newline>'' @
             ''    return $RETVAL\<newline>'' @
             ''}\<newline>'' @
             ''\<newline>'' @
             ''stop() {\<newline>'' @
             ''    get_status &>/dev/null || return 0\<newline>'' @
             ''    echo -n $"Stopping ${DESC}: ${NAME}"\<newline>'' @
             ''    killproc -p "$PIDFILE" "$CMD" -TERM\<newline>'' @
             ''    RETVAL=$?\<newline>'' @
             ''    if [ $RETVAL -eq 0 ]; then\<newline>'' @
             TAB @ ''    log_success_msg\<newline>'' @
             TAB @ ''    rm -f "$LOCKFILE"\<newline>'' @
             ''    else\<newline>'' @
             TAB @ ''    log_failure_msg\<newline>'' @
             ''    fi\<newline>'' @
             ''    rm -f "$PIDFILE"\<newline>'' @
             ''    return $RETVAL\<newline>'' @
             ''}'')) @
       ''\<newline>'' @
       ''\<newline>'' @
       ''case "$1" in\<newline>'' @
       ''    start|stop)\<newline>'' @
       TAB @ ''$1\<newline>'' @
       TAB @ '';;\<newline>'' @
       ''    restart|force-reload)\<newline>'' @
       TAB @ ''stop\<newline>'' @
       TAB @ ''start\<newline>'' @
       TAB @ '';;\<newline>'' @
       ''    status)\<newline>'' @
       TAB @ ''get_status\<newline>'' @
       TAB @ '';;\<newline>'' @
       ''    *)\<newline>'' @
       TAB @ ''echo $"Usage: $0 {start|stop|status|restart|force-reload}" >&2\<newline>'' @
       TAB @ ''exit 2 # LSB: invalid or excess arguments\<newline>'' @
       ''esac\<newline>''\<close>

subsection \<open>The host: files, search path, external programs\<close>

text \<open>
  The packages \<open>os\<close>, \<open>os/exec\<close> and \<open>time\<close> act on the host. The host is a state:
  a flat name space of files, the commands the search path resolves, the effect of each
  external program on the files, the error stream, and a trace of every request the
  process makes, in order. \<open>fails\<close> lets the host refuse any request with an error
  number (permission, missing parent directory, disk error), so that a failure can occur
  at every step. A path names the node stored under it: links are not followed.
\<close>

datatype errno = ENOENT | EEXIST | EACCES | EISDIR | ENOTDIR | EIO

datatype node = File string nat | Symlink string | Dir

datatype event =
    EvStat string
  | EvLookPath string
  | EvCreate string
  | EvWrite string string
  | EvClose string
  | EvChmod string nat
  | EvSymlink string string
  | EvRemove string
  | EvCommand "string list"
  | EvSleep nat

text \<open>
  Errors as values. \<open>PathError\<close> is \<open>*os.PathError\<close> and \<open>*os.LinkError\<close> (operation,
  path, cause), \<open>ExitError\<close> a failed external program. The other constructors are the
  error values the backend builds itself, one per \<open>errors.New\<close> or \<open>fmt.Errorf\<close> of
  the source, holding the arguments of the format.
\<close>

datatype error =
    ErrNoUserServiceSystemV
  | ErrInitExists string
  | PathError string string errno
  | ExitError "string list" errno
  | ErrFailedToRun "string list" error
  | ErrCreateStartupLink string error
  | ErrRemoveStartupLink string error
  | ErrCreateShutdownLink string error
  | ErrRemoveShutdownLink string error
  | ErrExecPath string

record host =
  files :: "string \<rightharpoonup> node"
  searchPath :: "string \<Rightarrow> bool"
  command :: "string list \<Rightarrow> (string \<rightharpoonup> node) \<Rightarrow> (string \<rightharpoonup> node)"
  fails :: "event \<Rightarrow> errno option"
  executable :: "error + string"
  stderr :: string
  trace :: "event list"

text \<open>A function of the process either returns or ends the process (\<open>os.Exit\<close>).\<close>

datatype 'a outcome = Return 'a | Exit nat

definition request :: "event \<Rightarrow> host \<Rightarrow> host" where
  "request e h = h\<lparr>trace := trace h @ [e]\<rparr>"

text \<open>
  \<open>os.Stat\<close>: \<open>None\<close> is Go's \<open>err == nil\<close>. A path that ends in a slash names a
  directory. \<open>stat_error h p\<close> is the error \<open>os.Stat(p)\<close> returns on the host \<open>h\<close>.
\<close>

definition lookup :: "(string \<rightharpoonup> node) \<Rightarrow> string \<Rightarrow> errno option" where
  "lookup fs p =
     (if 1 < length p \<and> last p = CHR ''/'' then
        (case fs (butlast p) of
           None \<Rightarrow> Some ENOENT
         | Some Dir \<Rightarrow> None
         | Some _ \<Rightarrow> Some ENOTDIR)
      else (case fs p of None \<Rightarrow> Some ENOENT | Some _ \<Rightarrow> None))"

definition stat_error :: "host \<Rightarrow> string \<Rightarrow> error option" where
  "stat_error h p =
     (case fails h (EvStat p) of
        Some e \<Rightarrow> Some (PathError ''stat'' p e)
      | None \<Rightarrow> map_option (PathError ''stat'' p) (lookup (files h) p))"

definition os_Stat :: "string \<Rightarrow> host \<Rightarrow> error option \<times> host" where
  "os_Stat p h = (stat_error h p, request (EvStat p) h)"

fun os_IsNotExist :: "error option \<Rightarrow> bool" where
  "os_IsNotExist (Some (PathError _ _ e)) = (e = ENOENT)"
| "os_IsNotExist _ = False"

definition exec_LookPath :: "string \<Rightarrow> host \<Rightarrow> bool \<times> host" where
  "exec_LookPath c h = (searchPath h c, request (EvLookPath c) h)"

text \<open>
  \<open>os.Create\<close>: the file is created empty with mode 0644 (420), or truncated when it is
  there.
\<close>

definition os_Create :: "string \<Rightarrow> host \<Rightarrow> error option \<times> host" where
  "os_Create p h =
     (let h' = request (EvCreate p) h in
      case fails h (EvCreate p) of
        Some e \<Rightarrow> (Some (PathError ''open'' p e), h')
      | None \<Rightarrow>
          (case files h p of
             Some Dir \<Rightarrow> (Some (PathError ''open'' p EISDIR), h')
           | Some (File _ m) \<Rightarrow> (None, h'\<lparr>files := (files h)(p \<mapsto> File [] m)\<rparr>)
           | _ \<Rightarrow> (None, h'\<lparr>files := (files h)(p \<mapsto> File [] 420)\<rparr>)))"

text \<open>
  \<open>Execute(f, to)\<close> writes the rendered text to the open file; \<open>f.Close()\<close> closes
  it. The file handle is the path it was opened under.
\<close>

definition file_Write :: "string \<Rightarrow> string \<Rightarrow> host \<Rightarrow> error option \<times> host" where
  "file_Write p txt h =
     (let h' = request (EvWrite p txt) h in
      case fails h (EvWrite p txt) of
        Some e \<Rightarrow> (Some (PathError ''write'' p e), h')
      | None \<Rightarrow>
          (case files h p of
             Some (File _ m) \<Rightarrow> (None, h'\<lparr>files := (files h)(p \<mapsto> File txt m)\<rparr>)
           | _ \<Rightarrow> (Some (PathError ''write'' p EIO), h')))"

definition file_Close :: "string \<Rightarrow> host \<Rightarrow> error option \<times> host" where
  "file_Close p h =
     (map_option (PathError ''close'' p) (fails h (EvClose p)), request (EvClose p) h)"

definition os_Chmod :: "string \<Rightarrow> nat \<Rightarrow> host \<Rightarrow> error option \<times> host" where
  "os_Chmod p m h =
     (let h' = request (EvChmod p m) h in
      case fails h (EvChmod p m) of
        Some e \<Rightarrow> (Some (PathError ''chmod'' p e), h')
      | None \<Rightarrow>
          (case files h p of
             None \<Rightarrow> (Some (PathError ''chmod'' p ENOENT), h')
           | Some (File c _) \<Rightarrow> (None, h'\<lparr>files := (files h)(p \<mapsto> File c m)\<rparr>)
           | Some _ \<Rightarrow> (None, h')))"

text \<open>\<open>os.Symlink(oldname, newname)\<close> fails when \<open>newname\<close> is there already.\<close>

definition os_Symlink :: "string \<Rightarrow> string \<Rightarrow> host \<Rightarrow> error option \<times> host" where
  "os_Symlink old new h =
     (let h' = request (EvSymlink old new) h in
      case fails h (EvSymlink old new) of
        Some e \<Rightarrow> (Some (PathError ''symlink'' new e), h')
      | None \<Rightarrow>
          (case files h new of
             Some _ \<Rightarrow> (Some (PathError ''symlink'' new EEXIST), h')
           | None \<Rightarrow> (None, h'\<lparr>files := (files h)(new \<mapsto> Symlink old)\<rparr>)))"

definition os_Remove :: "string \<Rightarrow> host \<Rightarrow> error option \<times> host" where
  "os_Remove p h =
     (let h' = request (EvRemove p) h in
      case fails h (EvRemove p) of
        Some e \<Rightarrow> (Some (PathError ''remove'' p e), h')
      | None \<Rightarrow>
          (case files h p of
             None \<Rightarrow> (Some (PathError ''remove'' p ENOENT), h')
           | Some _ \<Rightarrow> (None, h'\<lparr>files := (files h)(p := None)\<rparr>)))"

text \<open>
  \<open>exec.Command(args...).Run()\<close>: the program fails, or acts on the files as the host
  says it does.
\<close>

definition cmd_Run :: "string list \<Rightarrow> host \<Rightarrow> error option \<times> host" where
  "cmd_Run args h =
     (let h' = request (EvCommand args) h in
      case fails h (EvCommand args) of
        Some e \<Rightarrow> (Some (ExitError args e), h')
      | None \<Rightarrow> (None, h'\<lparr>files := command h args (files h)\<rparr>))"

definition Fprintf_Stderr :: "string \<Rightarrow> host \<Rightarrow> host" where
  "Fprintf_Stderr msg h = h\<lparr>stderr := stderr h @ msg\<rparr>"

definition time_Sleep :: "nat \<Rightarrow> host \<Rightarrow> host" where
  "time_Sleep ms h = request (EvSleep ms) h"

text \<open>
  Modelled from the spec: \<open>execPath\<close> and \<open>run\<close> are declared outside the two source
  files. \<open>execPath\<close> resolves the absolute path of the executable or fails; \<open>run\<close>
  invokes an external program and reports success or failure.
\<close>

definition execPath :: "host \<Rightarrow> error + string" where
  "execPath h = executable h"

definition run :: "string \<Rightarrow> string list \<Rightarrow> host \<Rightarrow> error option \<times> host" where
  "run c args h = cmd_Run (c # args) h"

subsection \<open>Constants, configuration path, flavour\<close>

definition defaultStartLevels :: string where
  "defaultStartLevels = ''2345''"

definition defaultStopLevels :: string where
  "defaultStopLevels = ''016''"

definition defaultStartPriority :: string where
  "defaultStartPriority = ''50''"

definition defaultStopPriority :: string where
  "defaultStopPriority = ''02''"

text \<open>\<open>strings.Split(s, "")\<close> on ASCII text: one string per character.\<close>

definition strings_Split_chars :: "string \<Rightarrow> string list" where
  "strings_Split_chars s = map (\<lambda>c. [c]) s"

definition configPath :: "Config \<Rightarrow> error + string" where
  "configPath s =
     (if userService s then Inl ErrNoUserServiceSystemV
      else Inr (''/etc/init.d/'' @ Name s))"

definition determineDistroFlavour :: "host \<Rightarrow> string outcome \<times> host" where
  "determineDistroFlavour h =
     (case os_Stat ''/etc/rc.d/init.d/functions'' h of
        (None, h1) \<Rightarrow> (Return ''redhat'', h1)
      | (Some _, h1) \<Rightarrow>
          (case os_Stat ''/lib/lsb/init-functions'' h1 of (err, h2) \<Rightarrow>
             if os_IsNotExist err then
               (Exit 1,
                Fprintf_Stderr ''System is lacking LSB support (/lib/lsb/init-functions)'' h2)
             else
               (case exec_LookPath ''start-stop-daemon'' h2 of
                  (True, h3) \<Rightarrow> (Return ''debian'', h3)
                | (False, h3) \<Rightarrow> (Return ''lsb'', h3))))"

subsection \<open>Activation links\<close>

text \<open>
  The two loops of \<open>manageSymlinks\<close> over the start and the stop runlevels. Each stops
  at the first failure and returns it.
\<close>

fun startLinks ::
  "Config \<Rightarrow> string \<Rightarrow> bool \<Rightarrow> string \<Rightarrow> string list \<Rightarrow> host \<Rightarrow> error option \<times> host" where
  "startLinks s confPath install base [] h = (None, h)"
| "startLinks s confPath install base (i # levels) h =
     (let path = base @ ''/rc'' @ i @ ''.d/S'' @ defaultStartPriority @ Name s in
      if install then
        (case os_Symlink confPath path h of
           (Some err, h') \<Rightarrow> (Some (ErrCreateStartupLink path err), h')
         | (None, h') \<Rightarrow> startLinks s confPath install base levels h')
      else
        (case os_Remove path h of
           (Some err, h') \<Rightarrow> (Some (ErrRemoveStartupLink path err), h')
         | (None, h') \<Rightarrow> startLinks s confPath install base levels h'))"

fun stopLinks ::
  "Config \<Rightarrow> string \<Rightarrow> bool \<Rightarrow> string \<Rightarrow> string list \<Rightarrow> host \<Rightarrow> error option \<times> host" where
  "stopLinks s confPath install base [] h = (None, h)"
| "stopLinks s confPath install base (i # levels) h =
     (let path = base @ ''/rc'' @ i @ ''.d/K'' @ defaultStopPriority @ Name s in
      if install then
        (case os_Symlink confPath path h of
           (Some err, h') \<Rightarrow> (Some (ErrCreateShutdownLink path err), h')
         | (None, h') \<Rightarrow> stopLinks s confPath install base levels h')
      else
        (case os_Remove path h of
           (Some err, h') \<Rightarrow> (Some (ErrRemoveShutdownLink path err), h')
         | (None, h') \<Rightarrow> stopLinks s confPath install base levels h'))"

text \<open>The \<open>else\<close> branch of \<open>manageSymlinks\<close> once \<open>base\<close> is known.\<close>

definition manualLinks ::
  "Config \<Rightarrow> string \<Rightarrow> bool \<Rightarrow> string \<Rightarrow> host \<Rightarrow> error option \<times> host" where
  "manualLinks s confPath install base h =
     (case startLinks s confPath install base (strings_Split_chars defaultStartLevels) h of
        (Some err, h') \<Rightarrow> (Some err, h')
      | (None, h') \<Rightarrow>
          stopLinks s confPath install base (strings_Split_chars defaultStopLevels) h')"

text \<open>The command \<open>manageSymlinks\<close> chooses, \<open>None\<close> for Go's \<open>cmd == nil\<close>.\<close>

definition linkCommand :: "Config \<Rightarrow> bool \<Rightarrow> host \<Rightarrow> string list option \<times> host" where
  "linkCommand s install h =
     (case exec_LookPath ''chkconfig'' h of
        (True, h1) \<Rightarrow>
          (Some (if install then [''chkconfig'', ''--add'', Name s]
                 else [''chkconfig'', ''--del'', Name s]), h1)
      | (False, h1) \<Rightarrow>
          (case exec_LookPath ''update-rc.d'' h1 of
             (True, h2) \<Rightarrow>
               (Some (if install then [''update-rc.d'', Name s, ''defaults'']
                      else [''update-rc.d'', ''-f'', Name s, ''remove'']), h2)
           | (False, h2) \<Rightarrow> (None, h2)))"

definition manageSymlinks ::
  "Config \<Rightarrow> string \<Rightarrow> bool \<Rightarrow> host \<Rightarrow> error option outcome \<times> host" where
  "manageSymlinks s confPath install h =
     (case linkCommand s install h of
        (Some args, h1) \<Rightarrow>
          (case cmd_Run args h1 of
             (Some err, h2) \<Rightarrow> (Return (Some (ErrFailedToRun args err)), h2)
           | (None, h2) \<Rightarrow> (Return None, h2))
      | (None, h1) \<Rightarrow>
          (case os_Stat ''/etc/rc.d/'' h1 of
             (None, h2) \<Rightarrow>
               (case manualLinks s confPath install ''/etc/rc.d'' h2 of
                  (r, h3) \<Rightarrow> (Return r, h3))
           | (Some _, h2) \<Rightarrow>
               (case os_Stat (''/etc'' @ ''/rc0.d'') h2 of (err, h3) \<Rightarrow>
                  if os_IsNotExist err then
                    (Exit 1, Fprintf_Stderr ''FIXME: no suitable rc.d directory found in /etc'' h3)
                  else
                    (case manualLinks s confPath install ''/etc'' h3 of
                       (r, h4) \<Rightarrow> (Return r, h4)))))"

subsection \<open>Install and Uninstall\<close>

text \<open>
  \<open>defer f.Close()\<close>: the file is closed when \<open>Install\<close> returns, after the result is
  fixed, and the result of closing is dropped. \<open>os.Exit\<close> runs no deferred call.
\<close>

definition deferred_Close ::
  "string \<Rightarrow> error option outcome \<times> host \<Rightarrow> error option outcome \<times> host" where
  "deferred_Close p r =
     (case r of
        (Exit n, h) \<Rightarrow> (Exit n, h)
      | (Return x, h) \<Rightarrow> (Return x, snd (file_Close p h)))"

definition Install :: "tfuncs \<Rightarrow> Config \<Rightarrow> host \<Rightarrow> error option outcome \<times> host" where
  "Install tf s h =
     (case configPath s of
        Inl err \<Rightarrow> (Return (Some err), h)
      | Inr confPath \<Rightarrow>
     (case execPath h of
        Inl err \<Rightarrow> (Return (Some err), h)
      | Inr path \<Rightarrow>
     (case determineDistroFlavour h of
        (Exit n, h1) \<Rightarrow> (Exit n, h1)
      | (Return flavour, h1) \<Rightarrow>
     (let to = \<lparr>Name = Name s, DisplayName = DisplayName s, Description = Description s,
                UserName = UserName s, Arguments = Arguments s,
                WorkingDirectory = WorkingDirectory s, ChRoot = ChRoot s,
                userService = userService s,
                Path = path, Flavour = flavour,
                DefaultStart = defaultStartPriority, DefaultStop = defaultStopPriority,
                StartLevels = strings_Split_chars defaultStartLevels,
                StopLevels = strings_Split_chars defaultStopLevels\<rparr>
      in
     (case os_Stat confPath h1 of
        (None, h2) \<Rightarrow> (Return (Some (ErrInitExists confPath)), h2)
      | (Some _, h2) \<Rightarrow>
     (case os_Create confPath h2 of
        (Some err, h3) \<Rightarrow> (Return (Some err), h3)
      | (None, h3) \<Rightarrow>
          deferred_Close confPath
            (case file_Write confPath (sysvScript tf to) h3 of
               (Some err, h4) \<Rightarrow> (Return (Some err), h4)
             | (None, h4) \<Rightarrow>
                 (case os_Chmod confPath 493 h4 of
                    (Some err, h5) \<Rightarrow> (Return (Some err), h5)
                  | (None, h5) \<Rightarrow> manageSymlinks s confPath True h5))))))))"

definition Uninstall :: "Config \<Rightarrow> host \<Rightarrow> error option outcome \<times> host" where
  "Uninstall s h =
     (case configPath s of
        Inl err \<Rightarrow> (Return (Some err), h)
      | Inr cp \<Rightarrow>
          (case manageSymlinks s cp False h of
             (Exit n, h1) \<Rightarrow> (Exit n, h1)
           | (Return (Some err), h1) \<Rightarrow> (Return (Some err), h1)
           | (Return None, h1) \<Rightarrow>
               (case os_Remove cp h1 of (r, h2) \<Rightarrow> (Return r, h2))))"

subsection \<open>The older variant of Install and Uninstall\<close>

text \<open>
  The loops of the older \<open>Install\<close>: the result of \<open>os.Symlink\<close> is assigned to
  \<open>err\<close> and the loop continues whether it is \<open>nil\<close> or not.
\<close>

fun startLinks_legacy :: "Config \<Rightarrow> string \<Rightarrow> string list \<Rightarrow> host \<Rightarrow> host" where
  "startLinks_legacy s confPath [] h = h"
| "startLinks_legacy s confPath (i # levels) h =
     (case os_Symlink confPath (''/etc/rc'' @ i @ ''.d/S50'' @ Name s) h of
        (_, h') \<Rightarrow> startLinks_legacy s confPath levels h')"

fun stopLinks_legacy :: "Config \<Rightarrow> string \<Rightarrow> string list \<Rightarrow> host \<Rightarrow> host" where
  "stopLinks_legacy s confPath [] h = h"
| "stopLinks_legacy s confPath (i # levels) h =
     (case os_Symlink confPath (''/etc/rc'' @ i @ ''.d/K02'' @ Name s) h of
        (_, h') \<Rightarrow> stopLinks_legacy s confPath levels h')"

definition Install_legacy ::
  "tfuncs \<Rightarrow> Config \<Rightarrow> host \<Rightarrow> error option outcome \<times> host" where
  "Install_legacy tf s h =
     (case configPath s of
        Inl err \<Rightarrow> (Return (Some err), h)
      | Inr confPath \<Rightarrow>
     (case execPath h of
        Inl err \<Rightarrow> (Return (Some err), h)
      | Inr path \<Rightarrow>
     (case determineDistroFlavour h of
        (Exit n, h1) \<Rightarrow> (Exit n, h1)
      | (Return flavour, h1) \<Rightarrow>
     (let to = \<lparr>Name = Name s, DisplayName = DisplayName s, Description = Description s,
                UserName = UserName s, Arguments = Arguments s,
                WorkingDirectory = WorkingDirectory s, ChRoot = ChRoot s,
                userService = userService s,
                Path_legacy = path, Flavour_legacy = flavour\<rparr>
      in
     (case os_Stat confPath h1 of
        (None, h2) \<Rightarrow> (Return (Some (ErrInitExists confPath)), h2)
      | (Some _, h2) \<Rightarrow>
     (case os_Create confPath h2 of
        (Some err, h3) \<Rightarrow> (Return (Some err), h3)
      | (None, h3) \<Rightarrow>
          deferred_Close confPath
            (case file_Write confPath (sysvScript_legacy tf to) h3 of
               (Some err, h4) \<Rightarrow> (Return (Some err), h4)
             | (None, h4) \<Rightarrow>
                 (case os_Chmod confPath 493 h4 of
                    (Some err, h5) \<Rightarrow> (Return (Some err), h5)
                  | (None, h5) \<Rightarrow>
                      (Return None,
                       stopLinks_legacy s confPath [''0'', ''1'', ''6'']
                         (startLinks_legacy s confPath [''2'', ''3'', ''4'', ''5''] h5))))))))))"

definition Uninstall_legacy :: "Config \<Rightarrow> host \<Rightarrow> error option \<times> host" where
  "Uninstall_legacy s h =
     (case configPath s of
        Inl err \<Rightarrow> (Some err, h)
      | Inr cp \<Rightarrow>
          (case os_Remove cp h of
             (Some err, h1) \<Rightarrow> (Some err, h1)
           | (None, h1) \<Rightarrow> (None, h1)))"

subsection \<open>Control proxy\<close>

definition Start :: "Config \<Rightarrow> host \<Rightarrow> error option \<times> host" where
  "Start s h = run ''service'' [Name s, ''start''] h"

definition Stop :: "Config \<Rightarrow> host \<Rightarrow> error option \<times> host" where
  "Stop s h = run ''service'' [Name s, ''stop''] h"

text \<open>\<open>time.Sleep(50 * time.Millisecond)\<close>: the delay is counted in milliseconds.\<close>

definition Restart :: "Config \<Rightarrow> host \<Rightarrow> error option \<times> host" where
  "Restart s h =
     (case Stop s h of
        (Some err, h1) \<Rightarrow> (Some err, h1)
      | (None, h1) \<Rightarrow> Start s (time_Sleep 50 h1))"

subsection \<open>Runtime supervisor\<close>

text \<open>
  The embedded program is the two callbacks of \<open>Interface\<close>, acting on a state of its
  own. The process records each callback it invokes. \<open>signals\<close> are the signals the
  host delivers to the process after \<open>signal.Notify\<close>, in order; the list is all the
  host ever delivers.
\<close>

datatype signal = SIGHUP | SIGINT | SIGQUIT | SIGTERM | SIGUSR1

datatype call = CallStart | CallStop


record 'a process =
  program :: 'a
  calls :: "call list"
  signals :: "signal list"




subsection \<open>Sample values\<close>

text \<open>
  Concrete values for the closed examples: a function map whose \<open>cmd\<close> wraps its
  argument in double quotes, a service, an embedded program that counts, one whose start
  fails, and hosts of each flavour. \<open>bare_host\<close> has no file and no command at all.
\<close>

definition strings_Join :: "string list \<Rightarrow> string \<Rightarrow> string" where
  "strings_Join xs sep =
     (case xs of [] \<Rightarrow> [] | x # r \<Rightarrow> x @ concat (map (\<lambda>y. sep @ y) r))"

definition tf_sample :: tfuncs where
  "tf_sample = \<lparr>cmd = (\<lambda>s. CHR 0x22 # s @ [CHR 0x22]), join = strings_Join\<rparr>"

definition demo :: Config where
  "demo = \<lparr>Name = ''demo'', DisplayName = ''Demo'', Description = ''Demo service'',
            UserName = [], Arguments = [''--port'', ''80''], WorkingDirectory = [],
            ChRoot = [], userService = False\<rparr>"

definition bare_host :: host where
  "bare_host = \<lparr>files = Map.empty, searchPath = (\<lambda>_. False), command = (\<lambda>_ fs. fs),
                 fails = (\<lambda>_. None), executable = Inr ''/usr/local/bin/demo'',
                 stderr = [], trace = []\<rparr>"

definition lsb_host :: host where
  "lsb_host = bare_host\<lparr>files := [''/lib/lsb/init-functions'' \<mapsto> File [] 420,
                                     ''/etc/rc0.d'' \<mapsto> Dir]\<rparr>"

definition debian_host :: host where
  "debian_host = lsb_host\<lparr>searchPath := (\<lambda>c. c = ''start-stop-daemon'')\<rparr>"

definition redhat_host :: host where
  "redhat_host = bare_host\<lparr>files := [''/etc/rc.d/init.d/functions'' \<mapsto> File [] 420,
                                        ''/etc/rc.d'' \<mapsto> Dir]\<rparr>"



definition norc_host :: host where
  "norc_host = bare_host\<lparr>files := [''/lib/lsb/init-functions'' \<mapsto> File [] 420]\<rparr>"

definition redhat_data :: sysvData where
  "redhat_data =
     \<lparr>Name = ''demo'', DisplayName = ''Demo'', Description = ''Demo service'',
      UserName = ''nobody; reboot'', Arguments = [''--port'', ''80''], WorkingDirectory = [],
      ChRoot = [], userService = False,
      Path = ''/usr/local/bin/demo'', Flavour = ''redhat'',
      DefaultStart = ''50'', DefaultStop = ''02'',
      StartLevels = [''2'', ''3'', ''4'', ''5''], StopLevels = [''0'', ''1'', ''6'']\<rparr>"

definition redhat_data_legacy :: sysvData_legacy where
  "redhat_data_legacy =
     \<lparr>Name = ''demo'', DisplayName = ''Demo'', Description = ''Demo service'',
      UserName = ''nobody; reboot'', Arguments = [''--port'', ''80''], WorkingDirectory = [],
      ChRoot = [], userService = False,
      Path_legacy = ''/usr/local/bin/demo'', Flavour_legacy = ''redhat''\<rparr>"

definition denying_host :: host where
  "denying_host =
     lsb_host\<lparr>fails := (\<lambda>e. case e of EvSymlink _ _ \<Rightarrow> Some EACCES | _ \<Rightarrow> None)\<rparr>"

text \<open>
  The requests that only read the host: \<open>os.Stat\<close> and \<open>exec.LookPath\<close>.
  \<open>installed_host\<close> is a Debian host on which the script of \<open>demo\<close> is installed.
\<close>

fun is_probe :: "event \<Rightarrow> bool" where
  "is_probe (EvStat _) = True"
| "is_probe (EvLookPath _) = True"
| "is_probe _ = False"

definition installed_host :: host where
  "installed_host =
     debian_host\<lparr>files := (files debian_host)(''/etc/init.d/demo'' \<mapsto> File ''#!/bin/bash'' 493)\<rparr>"

section \<open>Properties\<close>

subsection \<open>What a request leaves unchanged\<close>

lemma request_sel [simp]:
  "files (request e h) = files h" "fails (request e h) = fails h"
  "searchPath (request e h) = searchPath h" "stderr (request e h) = stderr h"
  "command (request e h) = command h" "executable (request e h) = executable h"
  "trace (request e h) = trace h @ [e]"
  by (simp_all add: request_def)

lemma Fprintf_Stderr_sel [simp]:
  "files (Fprintf_Stderr m h) = files h" "fails (Fprintf_Stderr m h) = fails h"
  "searchPath (Fprintf_Stderr m h) = searchPath h"
  "stderr (Fprintf_Stderr m h) = stderr h @ m"
  "command (Fprintf_Stderr m h) = command h" "executable (Fprintf_Stderr m h) = executable h"
  "trace (Fprintf_Stderr m h) = trace h"
  by (simp_all add: Fprintf_Stderr_def)

lemma stat_error_request [simp]: "stat_error (request e h) p = stat_error h p"
  by (simp add: stat_error_def request_def split: option.splits)

lemma stat_error_stderr [simp]: "stat_error (Fprintf_Stderr m h) p = stat_error h p"
  by (simp add: stat_error_def Fprintf_Stderr_def split: option.splits)

subsection \<open>Flavour detection\<close>

text \<open>
  Claim C4. The flavour detector returns "redhat" when \<open>/etc/rc.d/init.d/functions\<close>
  exists (\<open>os.Stat\<close> gives no error); otherwise it ends the process with status 1 and a
  diagnostic on the error stream when \<open>/lib/lsb/init-functions\<close> is absent; otherwise it
  returns "debian" when \<open>start-stop-daemon\<close> is on the search path; otherwise "lsb". The
  first match wins.
\<close>

theorem determineDistroFlavour_priority:
  "(stat_error h ''/etc/rc.d/init.d/functions'' = None
      \<longrightarrow> fst (determineDistroFlavour h) = Return ''redhat'') \<and>
   (stat_error h ''/etc/rc.d/init.d/functions'' \<noteq> None \<and>
    os_IsNotExist (stat_error h ''/lib/lsb/init-functions'')
      \<longrightarrow> fst (determineDistroFlavour h) = Exit 1 \<and>
          stderr (snd (determineDistroFlavour h)) =
            stderr h @ ''System is lacking LSB support (/lib/lsb/init-functions)'') \<and>
   (stat_error h ''/etc/rc.d/init.d/functions'' \<noteq> None \<and>
    \<not> os_IsNotExist (stat_error h ''/lib/lsb/init-functions'') \<and>
    searchPath h ''start-stop-daemon''
      \<longrightarrow> fst (determineDistroFlavour h) = Return ''debian'') \<and>
   (stat_error h ''/etc/rc.d/init.d/functions'' \<noteq> None \<and>
    \<not> os_IsNotExist (stat_error h ''/lib/lsb/init-functions'') \<and>
    \<not> searchPath h ''start-stop-daemon''
      \<longrightarrow> fst (determineDistroFlavour h) = Return ''lsb'')"
  by (auto simp add: determineDistroFlavour_def os_Stat_def exec_LookPath_def
      split: option.splits bool.splits)

theorem determineDistroFlavour_priority_witness:
  "fst (determineDistroFlavour redhat_host) = Return ''redhat'' \<and>
   fst (determineDistroFlavour bare_host) = Exit 1 \<and>
   stderr (snd (determineDistroFlavour bare_host)) =
     ''System is lacking LSB support (/lib/lsb/init-functions)'' \<and>
   fst (determineDistroFlavour debian_host) = Return ''debian'' \<and>
   fst (determineDistroFlavour lsb_host) = Return ''lsb''"
  using determineDistroFlavour_priority [of redhat_host]
    determineDistroFlavour_priority [of bare_host]
    determineDistroFlavour_priority [of debian_host]
    determineDistroFlavour_priority [of lsb_host]
  by (simp add: redhat_host_def bare_host_def debian_host_def lsb_host_def
      stat_error_def lookup_def)

subsection \<open>Unsupported configuration\<close>

text \<open>
  Claim C7. When the user-service flag of the definition is set, Install fails with the
  "not supported" error and the host is exactly as before: no request was made, whatever
  the other fields are. This holds for both variants of Install.
\<close>

theorem Install_user_service_unsupported:
  "userService s \<Longrightarrow>
     Install tf s h = (Return (Some ErrNoUserServiceSystemV), h) \<and>
     Install_legacy tf s h = (Return (Some ErrNoUserServiceSystemV), h)"
  by (simp add: Install_def Install_legacy_def configPath_def)

theorem Install_user_service_unsupported_witness:
  "Install tf_sample (demo\<lparr>userService := True\<rparr>) debian_host =
     (Return (Some ErrNoUserServiceSystemV), debian_host) \<and>
   Install_legacy tf_sample (demo\<lparr>userService := True\<rparr>) debian_host =
     (Return (Some ErrNoUserServiceSystemV), debian_host)"
  using Install_user_service_unsupported [of "demo\<lparr>userService := True\<rparr>" tf_sample debian_host]
  by simp

subsection \<open>Runtime supervisor\<close>



subsection \<open>Control proxy\<close>

text \<open>
  Claim C8. Restart invokes Stop, then waits 50 milliseconds, then invokes Start, in
  that order, and returns what Start returns; if Stop returns an error, Restart returns
  that error and the only request made is the stop request.
\<close>

theorem Restart_stop_sleep_start:
  "(fst (Stop s h) \<noteq> None \<longrightarrow>
      Restart s h = Stop s h \<and>
      trace (snd (Restart s h)) = trace h @ [EvCommand [''service'', Name s, ''stop'']]) \<and>
   (fst (Stop s h) = None \<longrightarrow>
      Restart s h = Start s (time_Sleep 50 (snd (Stop s h))) \<and>
      trace (snd (Restart s h)) =
        trace h @ [EvCommand [''service'', Name s, ''stop''], EvSleep 50,
                   EvCommand [''service'', Name s, ''start'']])"
  by (auto simp add: Restart_def Stop_def Start_def run_def cmd_Run_def time_Sleep_def
      request_def Let_def split: option.splits prod.splits)

theorem Restart_stop_sleep_start_witness:
  "Restart demo
     (bare_host\<lparr>fails := (\<lambda>e. if e = EvCommand [''service'', ''demo'', ''stop'']
                                then Some EIO else None)\<rparr>) =
     (Some (ExitError [''service'', ''demo'', ''stop''] EIO),
      bare_host\<lparr>fails := (\<lambda>e. if e = EvCommand [''service'', ''demo'', ''stop'']
                                then Some EIO else None),
                 trace := [EvCommand [''service'', ''demo'', ''stop'']]\<rparr>) \<and>
   trace (snd (Restart demo bare_host)) =
     [EvCommand [''service'', ''demo'', ''stop''], EvSleep 50,
      EvCommand [''service'', ''demo'', ''start'']] \<and>
   fst (Restart demo bare_host) = None"
  using
    Restart_stop_sleep_start [of demo
      "bare_host\<lparr>fails := (\<lambda>e. if e = EvCommand [''service'', ''demo'', ''stop'']
                                  then Some EIO else None)\<rparr>"]
    Restart_stop_sleep_start [of demo bare_host]
  by (simp add: demo_def bare_host_def Stop_def Start_def run_def cmd_Run_def time_Sleep_def
      request_def)

subsection \<open>Steps of Install\<close>

lemma stat_error_cong:
  "fails h' = fails h \<Longrightarrow> lookup (files h') p = lookup (files h) p \<Longrightarrow> stat_error h' p = stat_error h p"
  by (simp add: stat_error_def split: option.splits)

lemma determineDistroFlavour_frame [simp]:
  "files (snd (determineDistroFlavour h)) = files h"
  "fails (snd (determineDistroFlavour h)) = fails h"
  "searchPath (snd (determineDistroFlavour h)) = searchPath h"
  "command (snd (determineDistroFlavour h)) = command h"
  "executable (snd (determineDistroFlavour h)) = executable h"
  by (simp_all add: determineDistroFlavour_def os_Stat_def exec_LookPath_def
      split: option.splits bool.splits)

lemma determineDistroFlavour_stderr:
  "fst (determineDistroFlavour h) = Return fl \<Longrightarrow> stderr (snd (determineDistroFlavour h)) = stderr h"
  by (simp add: determineDistroFlavour_def os_Stat_def exec_LookPath_def
      split: option.splits bool.splits if_splits)

lemma determineDistroFlavour_returns:
  "fails h = (\<lambda>_. None) \<Longrightarrow> files h ''/lib/lsb/init-functions'' \<noteq> None \<Longrightarrow>
   \<exists>fl. fst (determineDistroFlavour h) = Return fl"
  by (auto simp add: determineDistroFlavour_def os_Stat_def exec_LookPath_def stat_error_def lookup_def
      split: option.splits bool.splits)

lemma manageSymlinks_exit:
  assumes "\<not> searchPath h ''chkconfig''" "\<not> searchPath h ''update-rc.d''"
    and "os_IsNotExist (stat_error h ''/etc/rc.d/'')"
    and "os_IsNotExist (stat_error h ''/etc/rc0.d'')"
  shows "fst (manageSymlinks s confPath install h) = Exit 1"
    and "stderr (snd (manageSymlinks s confPath install h)) =
           stderr h @ ''FIXME: no suitable rc.d directory found in /etc''"
    and "files (snd (manageSymlinks s confPath install h)) = files h"
  using assms
  by (auto simp add: manageSymlinks_def linkCommand_def os_Stat_def exec_LookPath_def
      split: option.splits bool.splits)

lemma os_Create_new:
  "fails h (EvCreate p) = None \<Longrightarrow> files h p = None \<Longrightarrow>
   os_Create p h = (None, (request (EvCreate p) h)\<lparr>files := (files h)(p \<mapsto> File [] 420)\<rparr>)"
  by (simp add: os_Create_def Let_def)

lemma file_Write_ok:
  "fails h (EvWrite p t) = None \<Longrightarrow> files h p = Some (File c m) \<Longrightarrow>
   file_Write p t h = (None, (request (EvWrite p t) h)\<lparr>files := (files h)(p \<mapsto> File t m)\<rparr>)"
  by (simp add: file_Write_def Let_def)

lemma os_Chmod_ok:
  "fails h (EvChmod p m) = None \<Longrightarrow> files h p = Some (File c m0) \<Longrightarrow>
   os_Chmod p m h = (None, (request (EvChmod p m) h)\<lparr>files := (files h)(p \<mapsto> File c m)\<rparr>)"
  by (simp add: os_Chmod_def Let_def)

lemma Install_reaches_links:
  assumes "\<not> userService s" "executable h = Inr path" "fails h = (\<lambda>_. None)"
    and "files h ''/lib/lsb/init-functions'' \<noteq> None"
    and "files h (''/etc/init.d/'' @ Name s) = None"
    and "stat_error h (''/etc/init.d/'' @ Name s) \<noteq> None"
  shows "\<exists>h5 scr. Install tf s h =
            deferred_Close (''/etc/init.d/'' @ Name s) (manageSymlinks s (''/etc/init.d/'' @ Name s) True h5) \<and>
          files h5 = (files h)(''/etc/init.d/'' @ Name s \<mapsto> File scr 493) \<and>
          fails h5 = fails h \<and> searchPath h5 = searchPath h \<and> stderr h5 = stderr h"
proof -
  define cp where "cp = ''/etc/init.d/'' @ Name s"
  have cfg: "configPath s = Inr cp"
    by (simp add: configPath_def assms(1) cp_def)
  note a5 = assms(5) [folded cp_def] and a6 = assms(6) [folded cp_def]
  obtain r h1 where d: "determineDistroFlavour h = (r, h1)"
    by (cases "determineDistroFlavour h")
  obtain fl where r: "r = Return fl"
    using determineDistroFlavour_returns [OF assms(3,4)] d by auto
  have h1: "files h1 = files h" "fails h1 = fails h" "searchPath h1 = searchPath h" "stderr h1 = stderr h"
    using determineDistroFlavour_frame [of h] determineDistroFlavour_stderr [of h fl] d r by simp_all
  obtain e where st: "stat_error h1 cp = Some e"
    using a6 h1 stat_error_cong [of h1 h cp] by auto
  define h2 where "h2 = request (EvStat cp) h1"
  have s2: "os_Stat cp h1 = (Some e, h2)"
    by (simp add: os_Stat_def st h2_def)
  have f2: "files h2 = files h" "fails h2 = (\<lambda>_. None)" "searchPath h2 = searchPath h" "stderr h2 = stderr h"
    by (simp_all add: h2_def h1 assms(3))
  define h3 where "h3 = (request (EvCreate cp) h2)\<lparr>files := (files h2)(cp \<mapsto> File [] 420)\<rparr>"
  have s3: "os_Create cp h2 = (None, h3)"
    unfolding h3_def by (rule os_Create_new) (simp_all add: f2 a5)
  have f3: "files h3 = (files h)(cp \<mapsto> File [] 420)" "fails h3 = (\<lambda>_. None)"
      "searchPath h3 = searchPath h" "stderr h3 = stderr h"
    by (simp_all add: h3_def f2)
  obtain scr where s4: "\<exists>h4. file_Write cp scr h3 = (None, h4) \<and> files h4 = (files h)(cp \<mapsto> File scr 420) \<and>
      fails h4 = (\<lambda>_. None) \<and> searchPath h4 = searchPath h \<and> stderr h4 = stderr h \<and>
      Install tf s h = deferred_Close cp
        (case file_Write cp scr h3 of
           (Some err, h4) \<Rightarrow> (Return (Some err), h4)
         | (None, h4) \<Rightarrow>
             (case os_Chmod cp 493 h4 of
                (Some err, h5) \<Rightarrow> (Return (Some err), h5)
              | (None, h5) \<Rightarrow> manageSymlinks s cp True h5))"
  proof -
    have "Install tf s h = deferred_Close cp
        (case file_Write cp scr h3 of
           (Some err, h4) \<Rightarrow> (Return (Some err), h4)
         | (None, h4) \<Rightarrow>
             (case os_Chmod cp 493 h4 of
                (Some err, h5) \<Rightarrow> (Return (Some err), h5)
              | (None, h5) \<Rightarrow> manageSymlinks s cp True h5))"
      if "scr = sysvScript tf \<lparr>Name = Name s, DisplayName = DisplayName s, Description = Description s,
                UserName = UserName s, Arguments = Arguments s,
                WorkingDirectory = WorkingDirectory s, ChRoot = ChRoot s,
                userService = userService s,
                Path = path, Flavour = fl,
                DefaultStart = defaultStartPriority, DefaultStop = defaultStopPriority,
                StartLevels = strings_Split_chars defaultStartLevels,
                StopLevels = strings_Split_chars defaultStopLevels\<rparr>" for scr
      unfolding that
      by (simp add: Install_def cfg execPath_def assms(2) d r s2 s3 Let_def)
    moreover have "file_Write cp scr h3 =
        (None, (request (EvWrite cp scr) h3)\<lparr>files := (files h3)(cp \<mapsto> File scr 420)\<rparr>)" for scr
      by (rule file_Write_ok) (simp_all add: f3)
    ultimately show ?thesis
      using that by (simp add: f3)
  qed
  then obtain h4 where w: "file_Write cp scr h3 = (None, h4)"
      and f4: "files h4 = (files h)(cp \<mapsto> File scr 420)" "fails h4 = (\<lambda>_. None)"
        "searchPath h4 = searchPath h" "stderr h4 = stderr h"
      and I: "Install tf s h = deferred_Close cp
        (case file_Write cp scr h3 of
           (Some err, h4) \<Rightarrow> (Return (Some err), h4)
         | (None, h4) \<Rightarrow>
             (case os_Chmod cp 493 h4 of
                (Some err, h5) \<Rightarrow> (Return (Some err), h5)
              | (None, h5) \<Rightarrow> manageSymlinks s cp True h5))"
    by blast
  define h5 where "h5 = (request (EvChmod cp 493) h4)\<lparr>files := (files h4)(cp \<mapsto> File scr 493)\<rparr>"
  have c: "os_Chmod cp 493 h4 = (None, h5)"
    unfolding h5_def by (rule os_Chmod_ok [where c = scr and ?m0.0 = 420]) (simp_all add: f4)
  have "Install tf s h = deferred_Close cp (manageSymlinks s cp True h5)"
    by (simp add: I w c)
  moreover have "files h5 = (files h)(cp \<mapsto> File scr 493)" "fails h5 = fails h"
      "searchPath h5 = searchPath h" "stderr h5 = stderr h"
    by (simp_all add: h5_def f4 assms(3))
  ultimately show ?thesis unfolding cp_def by blast
qed


lemma lookup_other:
  "butlast p \<noteq> q \<Longrightarrow> p \<noteq> q \<Longrightarrow> lookup (fs(q \<mapsto> n)) p = lookup fs p"
  by (simp add: lookup_def)

subsection \<open>Link management without a runlevel directory\<close>

text \<open>
  Claim C10. In the fallback of link management (neither \<open>chkconfig\<close> nor
  \<open>update-rc.d\<close> on the search path), when \<open>/etc/rc.d\<close> does not exist and
  \<open>/etc/rc0.d\<close> does not exist either, \<open>manageSymlinks\<close> ends the process with
  status 1 and a diagnostic on the error stream, and so do its callers: Uninstall of a
  system service, and Install once the script is written (no earlier step failing, no
  script there before). No error value reaches the caller.
\<close>

theorem manageSymlinks_exits_without_rc_directory:
  assumes "\<not> searchPath h ''chkconfig''" "\<not> searchPath h ''update-rc.d''"
    and "os_IsNotExist (stat_error h ''/etc/rc.d/'')"
    and "os_IsNotExist (stat_error h ''/etc/rc0.d'')"
  shows
    "fst (manageSymlinks s confPath install h) = Exit 1 \<and>
     stderr (snd (manageSymlinks s confPath install h)) =
       stderr h @ ''FIXME: no suitable rc.d directory found in /etc'' \<and>
     (\<not> userService s \<longrightarrow>
        fst (Uninstall s h) = Exit 1 \<and>
        stderr (snd (Uninstall s h)) =
          stderr h @ ''FIXME: no suitable rc.d directory found in /etc'') \<and>
     (\<not> userService s \<and> executable h = Inr path \<and> fails h = (\<lambda>_. None) \<and>
      files h ''/lib/lsb/init-functions'' \<noteq> None \<and>
      files h (''/etc/init.d/'' @ Name s) = None \<and>
      stat_error h (''/etc/init.d/'' @ Name s) \<noteq> None \<longrightarrow>
        fst (Install tf s h) = Exit 1 \<and>
        stderr (snd (Install tf s h)) =
          stderr h @ ''FIXME: no suitable rc.d directory found in /etc'')"
proof (intro conjI impI)
  show "fst (manageSymlinks s confPath install h) = Exit 1"
    and "stderr (snd (manageSymlinks s confPath install h)) =
       stderr h @ ''FIXME: no suitable rc.d directory found in /etc''"
    using manageSymlinks_exit [OF assms] by simp_all
next
  assume u: "\<not> userService s"
  obtain h1 where m: "manageSymlinks s (''/etc/init.d/'' @ Name s) False h = (Exit 1, h1)"
    and e: "stderr h1 = stderr h @ ''FIXME: no suitable rc.d directory found in /etc''"
    using manageSymlinks_exit(1,2) [OF assms, of s "''/etc/init.d/'' @ Name s" False]
    by (cases "manageSymlinks s (''/etc/init.d/'' @ Name s) False h") simp
  show "fst (Uninstall s h) = Exit 1"
    and "stderr (snd (Uninstall s h)) = stderr h @ ''FIXME: no suitable rc.d directory found in /etc''"
    using u m e by (simp_all add: Uninstall_def configPath_def)
next
  assume a: "\<not> userService s \<and> executable h = Inr path \<and> fails h = (\<lambda>_. None) \<and>
      files h ''/lib/lsb/init-functions'' \<noteq> None \<and>
      files h (''/etc/init.d/'' @ Name s) = None \<and>
      stat_error h (''/etc/init.d/'' @ Name s) \<noteq> None"
  define cp where "cp = ''/etc/init.d/'' @ Name s"
  from a have ex: "\<exists>h5 scr. Install tf s h =
            deferred_Close (''/etc/init.d/'' @ Name s) (manageSymlinks s (''/etc/init.d/'' @ Name s) True h5) \<and>
          files h5 = (files h)(''/etc/init.d/'' @ Name s \<mapsto> File scr 493) \<and>
          fails h5 = fails h \<and> searchPath h5 = searchPath h \<and> stderr h5 = stderr h"
    by (elim conjE) (rule Install_reaches_links, assumption+)
  obtain h5 scr where I: "Install tf s h = deferred_Close cp (manageSymlinks s cp True h5)"
    and f5: "files h5 = (files h)(cp \<mapsto> File scr 493)" "fails h5 = fails h"
      "searchPath h5 = searchPath h" "stderr h5 = stderr h"
    using ex [folded cp_def] by blast
  have ne: "butlast ''/etc/rc.d/'' \<noteq> cp" "''/etc/rc.d/'' \<noteq> cp"
      "butlast ''/etc/rc0.d'' \<noteq> cp" "''/etc/rc0.d'' \<noteq> cp"
    by (simp_all add: cp_def)
  have s5: "stat_error h5 ''/etc/rc.d/'' = stat_error h ''/etc/rc.d/''"
      "stat_error h5 ''/etc/rc0.d'' = stat_error h ''/etc/rc0.d''"
    by (rule stat_error_cong, simp add: f5, simp only: f5 lookup_other [OF ne(1,2)],
        rule stat_error_cong, simp add: f5, simp only: f5 lookup_other [OF ne(3,4)])
  have x: "fst (manageSymlinks s cp True h5) = Exit 1"
      "stderr (snd (manageSymlinks s cp True h5)) =
         stderr h5 @ ''FIXME: no suitable rc.d directory found in /etc''"
    using manageSymlinks_exit(1,2) [of h5 s cp True] assms f5 s5 by simp_all
  show "fst (Install tf s h) = Exit 1"
    and "stderr (snd (Install tf s h)) = stderr h @ ''FIXME: no suitable rc.d directory found in /etc''"
    using x f5 unfolding I
    by (cases "manageSymlinks s cp True h5"; simp add: deferred_Close_def)+
qed


theorem manageSymlinks_exits_without_rc_directory_witness:
  "fst (manageSymlinks demo ''/etc/init.d/demo'' False norc_host) = Exit 1 \<and>
   fst (Uninstall demo norc_host) = Exit 1 \<and>
   fst (Install tf_sample demo norc_host) = Exit 1 \<and>
   stderr (snd (Install tf_sample demo norc_host)) =
     ''FIXME: no suitable rc.d directory found in /etc''"
  using manageSymlinks_exits_without_rc_directory [where h = norc_host and s = demo and confPath = "''/etc/init.d/demo''"
      and install = False and path = "''/usr/local/bin/demo''" and tf = tf_sample]
  by (simp add: norc_host_def bare_host_def demo_def stat_error_def lookup_def)

subsection \<open>Quoting in the rendered script\<close>

lemma sublist_skip: "sublist xs ys \<Longrightarrow> sublist xs (zs @ ys)"
  by (auto simp add: sublist_append)

lemma sublist_here: "sublist (a @ b @ c) (a @ b @ c @ ss)"
  using sublist_append_rightI [of "a @ b @ c" ss] by simp

text \<open>
  Where the templates do quote. The script depends on the arguments, the working
  directory and the root directory only through \<open>cmd\<close> of them and through their
  being empty or not, in every flavour; on the user name likewise in every flavour but
  redhat.
\<close>

lemma concat_map_cmd:
  "map f xs = map f ys \<Longrightarrow> concat (map (\<lambda>a. p @ f a) xs) = concat (map (\<lambda>a. p @ f a) ys)"
proof -
  assume a: "map f xs = map f ys"
  have "map (\<lambda>a. p @ f a) zs = map (\<lambda>b. p @ b) (map f zs)" for zs
    by simp
  then show ?thesis using a by metis
qed

lemma sysvScript_through_cmd:
  assumes "map (cmd tf) args = map (cmd tf) (Arguments to)"
    and "cmd tf w = cmd tf (WorkingDirectory to)" "(w = []) = (WorkingDirectory to = [])"
    and "cmd tf c = cmd tf (ChRoot to)" "(c = []) = (ChRoot to = [])"
  shows "sysvScript tf (to\<lparr>Arguments := args, WorkingDirectory := w, ChRoot := c\<rparr>) = sysvScript tf to"
  unfolding sysvScript_def
  using assms(2-5) concat_map_cmd [OF assms(1), of "'' ''"]
  by simp

lemma sysvScript_UserName_through_cmd:
  assumes "Flavour to \<noteq> ''redhat''"
    and "cmd tf u = cmd tf (UserName to)" "(u = []) = (UserName to = [])"
  shows "sysvScript tf (to\<lparr>UserName := u\<rparr>) = sysvScript tf to"
  unfolding sysvScript_def
  using assms
  by simp

lemma sysvScript_legacy_through_cmd:
  assumes "map (cmd tf) args = map (cmd tf) (Arguments to)"
    and "cmd tf w = cmd tf (WorkingDirectory to)" "(w = []) = (WorkingDirectory to = [])"
    and "cmd tf c = cmd tf (ChRoot to)" "(c = []) = (ChRoot to = [])"
  shows "sysvScript_legacy tf (to\<lparr>Arguments := args, WorkingDirectory := w, ChRoot := c\<rparr>) = sysvScript_legacy tf to"
  unfolding sysvScript_legacy_def
  using assms(2-5) concat_map_cmd [OF assms(1), of "'' ''"]
  by simp

lemma sysvScript_legacy_UserName_through_cmd:
  assumes "Flavour_legacy to \<noteq> ''redhat''"
    and "cmd tf u = cmd tf (UserName to)" "(u = []) = (UserName to = [])"
  shows "sysvScript_legacy tf (to\<lparr>UserName := u\<rparr>) = sysvScript_legacy tf to"
  unfolding sysvScript_legacy_def
  using assms
  by simp

text \<open>
  Claim C1 says that every user-supplied value is passed through \<open>cmd\<close> before it is
  written into the script, in every flavour branch. In the redhat branch of both
  templates the user name is printed as it is: for every function map, so for every
  quoting function, a non-empty user name stands in the script verbatim after
  \<open>--user=\<close>.
\<close>

theorem sysvScript_redhat_UserName_unquoted:
  "(UserName to \<noteq> [] \<and> Flavour to = ''redhat'' \<longrightarrow>
      sublist (''--user='' @ UserName to @ '' '') (sysvScript tf to)) \<and>
   (UserName to' \<noteq> [] \<and> Flavour_legacy to' = ''redhat'' \<longrightarrow>
      sublist (''--user='' @ UserName to' @ '' '') (sysvScript_legacy tf to'))"
proof (intro conjI impI)
  assume a: "UserName to \<noteq> [] \<and> Flavour to = ''redhat''"
  then have u: "UserName to \<noteq> []" and f: "Flavour to = ''redhat''"
    by (rule conjunct1, rule conjunct2)
  show "sublist (''--user='' @ UserName to @ '' '') (sysvScript tf to)"
    unfolding sysvScript_def
    apply (simp only: u f HOL.simp_thms if_True if_False append_assoc)
    apply (rule sublist_here | rule sublist_skip)+
    done
next
  assume a: "UserName to' \<noteq> [] \<and> Flavour_legacy to' = ''redhat''"
  then have u: "UserName to' \<noteq> []" and f: "Flavour_legacy to' = ''redhat''"
    by (rule conjunct1, rule conjunct2)
  show "sublist (''--user='' @ UserName to' @ '' '') (sysvScript_legacy tf to')"
    unfolding sysvScript_legacy_def
    apply (simp only: u f HOL.simp_thms if_True if_False append_assoc)
    apply (rule sublist_here | rule sublist_skip)+
    done
qed

theorem sysvScript_redhat_UserName_unquoted_witness:
  "sublist ''--user=nobody; reboot '' (sysvScript tf_sample redhat_data) \<and>
   sublist ''--user=nobody; reboot '' (sysvScript_legacy tf_sample redhat_data_legacy)"
  using sysvScript_redhat_UserName_unquoted [of redhat_data tf_sample redhat_data_legacy]
  by (simp add: redhat_data_def redhat_data_legacy_def)


subsection \<open>The older variant: links on Uninstall, link errors on Install\<close>

lemmas eval_defs = Install_legacy_def Uninstall_legacy_def Install_def configPath_def execPath_def
  determineDistroFlavour_def os_Stat_def stat_error_def lookup_def exec_LookPath_def
  os_Create_def file_Write_def os_Chmod_def os_Symlink_def os_Remove_def file_Close_def
  deferred_Close_def manageSymlinks_def linkCommand_def manualLinks_def strings_Split_chars_def
  defaultStartLevels_def defaultStopLevels_def defaultStartPriority_def defaultStopPriority_def
  request_def Let_def

text \<open>
  Claim C2 says that Install followed by Uninstall restores the files, with no residual
  link. The older variant on a host with the flat runlevel directories: Install
  succeeds, Uninstall succeeds, and the files afterwards are the files before plus the
  seven links, none of which was there before.
\<close>

theorem Uninstall_legacy_leaves_links:
  "fst (Install_legacy tf demo lsb_host) = Return None \<and>
   fst (Uninstall_legacy demo (snd (Install_legacy tf demo lsb_host))) = None \<and>
   (\<forall>p. files (snd (Uninstall_legacy demo (snd (Install_legacy tf demo lsb_host)))) p =
      (if p \<in> {''/etc/rc2.d/S50demo'', ''/etc/rc3.d/S50demo'', ''/etc/rc4.d/S50demo'',
                ''/etc/rc5.d/S50demo'', ''/etc/rc0.d/K02demo'', ''/etc/rc1.d/K02demo'',
                ''/etc/rc6.d/K02demo''}
       then Some (Symlink ''/etc/init.d/demo'') else files lsb_host p)) \<and>
   files lsb_host ''/etc/rc2.d/S50demo'' = None"
  by (simp add: eval_defs lsb_host_def bare_host_def demo_def)

text \<open>
  On the same host the tool-delegating variant removes what it created: after Install
  and Uninstall the files are the files before.
\<close>

lemma Install_Uninstall_restores_sample:
  "fst (Install tf demo lsb_host) = Return None \<and>
   fst (Uninstall demo (snd (Install tf demo lsb_host))) = Return None \<and>
   files (snd (Uninstall demo (snd (Install tf demo lsb_host)))) = files lsb_host"
  by (simp add: eval_defs Uninstall_def lsb_host_def bare_host_def demo_def fun_eq_iff)

text \<open>
  Claim C3 says that every failure of a step of Install is returned to the caller. On a
  host that refuses every \<open>os.Symlink\<close>, the older Install returns \<open>nil\<close> and leaves
  no link (the files differ from the host's in the script only), where the
  tool-delegating Install returns the failure of the first link.
\<close>

theorem Install_legacy_swallows_link_errors:
  "fst (Install_legacy tf demo denying_host) = Return None \<and>
   (files (snd (Install_legacy tf demo denying_host)))(''/etc/init.d/demo'' := None) =
     files denying_host \<and>
   fst (Install tf demo denying_host) =
     Return (Some (ErrCreateStartupLink ''/etc/rc2.d/S50demo''
                     (PathError ''symlink'' ''/etc/rc2.d/S50demo'' EACCES)))"
  by (simp add: eval_defs denying_host_def lsb_host_def bare_host_def demo_def)

subsection \<open>Activation links created directly\<close>










subsection \<open>Install over an existing script\<close>

lemma determineDistroFlavour_stat_error [simp]:
  "stat_error (snd (determineDistroFlavour h)) p = stat_error h p"
  by (rule stat_error_cong) simp_all

lemma determineDistroFlavour_trace:
  "\<exists>es. trace (snd (determineDistroFlavour h)) = trace h @ es \<and> list_all is_probe es"
  by (simp add: determineDistroFlavour_def os_Stat_def exec_LookPath_def
      split: option.splits bool.splits)

lemma Install_script_exists_cases:
  assumes "stat_error h (''/etc/init.d/'' @ Name s) = None"
  shows "Install tf s h =
     (if userService s then (Return (Some ErrNoUserServiceSystemV), h)
      else case executable h of
        Inl err \<Rightarrow> (Return (Some err), h)
      | Inr path \<Rightarrow>
          (case fst (determineDistroFlavour h) of
             Exit n \<Rightarrow> (Exit n, snd (determineDistroFlavour h))
           | Return fl \<Rightarrow>
               (Return (Some (ErrInitExists (''/etc/init.d/'' @ Name s))),
                request (EvStat (''/etc/init.d/'' @ Name s)) (snd (determineDistroFlavour h)))))"
    and "Install_legacy tf s h =
     (if userService s then (Return (Some ErrNoUserServiceSystemV), h)
      else case executable h of
        Inl err \<Rightarrow> (Return (Some err), h)
      | Inr path \<Rightarrow>
          (case fst (determineDistroFlavour h) of
             Exit n \<Rightarrow> (Exit n, snd (determineDistroFlavour h))
           | Return fl \<Rightarrow>
               (Return (Some (ErrInitExists (''/etc/init.d/'' @ Name s))),
                request (EvStat (''/etc/init.d/'' @ Name s)) (snd (determineDistroFlavour h)))))"
proof -
  obtain r h1 where d: "determineDistroFlavour h = (r, h1)"
    by (cases "determineDistroFlavour h")
  have "stat_error h1 (''/etc/init.d/'' @ Name s) = None"
    using determineDistroFlavour_stat_error [of h "''/etc/init.d/'' @ Name s"] d assms by simp
  then show "Install tf s h =
     (if userService s then (Return (Some ErrNoUserServiceSystemV), h)
      else case executable h of
        Inl err \<Rightarrow> (Return (Some err), h)
      | Inr path \<Rightarrow>
          (case fst (determineDistroFlavour h) of
             Exit n \<Rightarrow> (Exit n, snd (determineDistroFlavour h))
           | Return fl \<Rightarrow>
               (Return (Some (ErrInitExists (''/etc/init.d/'' @ Name s))),
                request (EvStat (''/etc/init.d/'' @ Name s)) (snd (determineDistroFlavour h)))))"
    and "Install_legacy tf s h =
     (if userService s then (Return (Some ErrNoUserServiceSystemV), h)
      else case executable h of
        Inl err \<Rightarrow> (Return (Some err), h)
      | Inr path \<Rightarrow>
          (case fst (determineDistroFlavour h) of
             Exit n \<Rightarrow> (Exit n, snd (determineDistroFlavour h))
           | Return fl \<Rightarrow>
               (Return (Some (ErrInitExists (''/etc/init.d/'' @ Name s))),
                request (EvStat (''/etc/init.d/'' @ Name s)) (snd (determineDistroFlavour h)))))"
    using d
    by (simp_all add: Install_def Install_legacy_def configPath_def execPath_def os_Stat_def
        split: sum.splits outcome.splits)
qed

text \<open>
  Claim C6, as amended. When the definition is not a user service, the executable path
  resolves and flavour detection returns a flavour, Install on a host where the script
  \<open>/etc/init.d/Name\<close> exists fails with the "already exists" error. Whenever the
  script exists, whatever Install returns, the files are unchanged and every request
  made is a read (\<open>os.Stat\<close>, \<open>exec.LookPath\<close>): no write, no chmod, no link. Both
  variants of Install.
\<close>

theorem Install_script_exists:
  "(\<not> userService s \<and> executable h = Inr path \<and>
    fst (determineDistroFlavour h) = Return fl \<and>
    stat_error h (''/etc/init.d/'' @ Name s) = None \<longrightarrow>
      fst (Install tf s h) = Return (Some (ErrInitExists (''/etc/init.d/'' @ Name s))) \<and>
      fst (Install_legacy tf s h) = Return (Some (ErrInitExists (''/etc/init.d/'' @ Name s)))) \<and>
   (stat_error h (''/etc/init.d/'' @ Name s) = None \<longrightarrow>
      files (snd (Install tf s h)) = files h \<and>
      (\<exists>es. trace (snd (Install tf s h)) = trace h @ es \<and> list_all is_probe es) \<and>
      files (snd (Install_legacy tf s h)) = files h \<and>
      (\<exists>es. trace (snd (Install_legacy tf s h)) = trace h @ es \<and> list_all is_probe es))"
proof (intro conjI impI)
  assume a: "\<not> userService s \<and> executable h = Inr path \<and>
    fst (determineDistroFlavour h) = Return fl \<and>
    stat_error h (''/etc/init.d/'' @ Name s) = None"
  then have e: "stat_error h (''/etc/init.d/'' @ Name s) = None" by (elim conjE)
  from a show "fst (Install tf s h) = Return (Some (ErrInitExists (''/etc/init.d/'' @ Name s)))"
    by (simp add: Install_script_exists_cases(1) [OF e])
  from a show "fst (Install_legacy tf s h) = Return (Some (ErrInitExists (''/etc/init.d/'' @ Name s)))"
    by (simp add: Install_script_exists_cases(2) [OF e])
next
  assume e: "stat_error h (''/etc/init.d/'' @ Name s) = None"
  obtain es where es: "trace (snd (determineDistroFlavour h)) = trace h @ es" "list_all is_probe es"
    using determineDistroFlavour_trace [of h] by blast
  have t: "\<exists>es'. trace h @ es @ [EvStat p] = trace h @ es' \<and> list_all is_probe es'" for p
    using es(2) by (intro exI [of _ "es @ [EvStat p]"]) simp
  have t0: "\<exists>es'. trace h @ es = trace h @ es' \<and> list_all is_probe es'"
    using es(2) by blast
  show "files (snd (Install tf s h)) = files h"
    by (simp add: Install_script_exists_cases(1) [OF e] split: sum.splits outcome.splits)
  show "files (snd (Install_legacy tf s h)) = files h"
    by (simp add: Install_script_exists_cases(2) [OF e] split: sum.splits outcome.splits)
  show "\<exists>es. trace (snd (Install tf s h)) = trace h @ es \<and> list_all is_probe es"
    using t t0 es(1)
    by (simp add: Install_script_exists_cases(1) [OF e] split: sum.splits outcome.splits)
  show "\<exists>es. trace (snd (Install_legacy tf s h)) = trace h @ es \<and> list_all is_probe es"
    using t t0 es(1)
    by (simp add: Install_script_exists_cases(2) [OF e] split: sum.splits outcome.splits)
qed

text \<open>
  Claim C6 as stated fails: with the user-service flag set, Install on a host where the
  script exists returns the "not supported" error, not "already exists".
\<close>

theorem Install_script_exists_user_service_counterexample:
  "stat_error installed_host (''/etc/init.d/'' @ Name (demo\<lparr>userService := True\<rparr>)) = None \<and>
   fst (Install tf_sample (demo\<lparr>userService := True\<rparr>) installed_host) \<noteq>
     Return (Some (ErrInitExists (''/etc/init.d/'' @ Name (demo\<lparr>userService := True\<rparr>)))) \<and>
   fst (Install tf_sample (demo\<lparr>userService := True\<rparr>) installed_host) =
     Return (Some ErrNoUserServiceSystemV)"
  by (simp add: Install_def configPath_def installed_host_def debian_host_def lsb_host_def
      bare_host_def demo_def stat_error_def lookup_def)

theorem Install_script_exists_witness:
  "fst (Install tf_sample demo installed_host) = Return (Some (ErrInitExists ''/etc/init.d/demo'')) \<and>
   fst (Install_legacy tf_sample demo installed_host) = Return (Some (ErrInitExists ''/etc/init.d/demo'')) \<and>
   files (snd (Install tf_sample demo installed_host)) = files installed_host \<and>
   files (snd (Install tf_sample (demo\<lparr>userService := True\<rparr>) installed_host)) = files installed_host"
proof -
  have f: "fst (determineDistroFlavour installed_host) = Return ''debian''"
    by (simp add: determineDistroFlavour_def os_Stat_def exec_LookPath_def stat_error_def lookup_def
        installed_host_def debian_host_def lsb_host_def bare_host_def)
  have x: "executable installed_host = Inr ''/usr/local/bin/demo''"
    by (simp add: installed_host_def debian_host_def lsb_host_def bare_host_def)
  have st: "stat_error installed_host ''/etc/init.d/demo'' = None"
    by (simp add: installed_host_def debian_host_def lsb_host_def bare_host_def stat_error_def lookup_def)
  show ?thesis
    using Install_script_exists [of demo installed_host "''/usr/local/bin/demo''" "''debian''" tf_sample]
      Install_script_exists [of "demo\<lparr>userService := True\<rparr>" installed_host "''/usr/local/bin/demo''" "''debian''" tf_sample]
      f x st
    by (simp add: demo_def)
qed

end
